theory Spec2Isabelle
  imports Complex_Main
begin

section \<open>Gift-App: order placement and order lifecycle\<close>

text \<open>
  A shallow embedding of the order routes of the Gift-App backend: the order model with its
  Zod schema and Mongoose pre-save hook, the handler that places an order
  (\<^verbatim>\<open>POST /api/orders\<close>), and the handlers that read and update one order
  (\<^verbatim>\<open>GET\<close> and \<^verbatim>\<open>PUT /api/orders/[id]\<close>).

  Conventions of the embedding.
  \<^item> A JavaScript number is the rational a finite double denotes (\<open>rat\<close>); comparisons are
    exact. The operations that round (\<open>+\<close>, \<open>-\<close>, \<open>*\<close> on doubles) are not computed by the
    model: they are parameters (\<open>fl_add\<close>, \<open>fl_sub\<close>, \<open>fl_mul\<close>), and every theorem holds
    whatever they are. \<open>NaN\<close> and the infinities are left out. A \<open>Date\<close> is a number of
    milliseconds (\<open>int\<close>).
  \<^item> The body of a placement request is a record whose fields have the JSON type the schema
    expects; an optional field is an \<open>option\<close>. A value that ought to be a \<open>Date\<close> is a
    \<open>jdate\<close>: JSON carries no dates, so a date read from a body is \<open>NotDate\<close>. The body of an
    update request is not validated by the handler and is any JSON value.
  \<^item> The database is a pair of collections, a list of the calls made to the database layer,
    and (inside a handler) the write set of the open transaction. Database calls do not
    fail for reasons of infrastructure.
  \<^item> A document is stored under its identifier (\<^verbatim>\<open>_id\<close>), which is kept beside its fields.
    The clock is read once per request (\<open>now\<close>), and the identifier Mongoose gives a new
    document is an input (\<open>new_id\<close>).
  \<^item> Identifiers are strings as the routes receive them; their cast to \<^verbatim>\<open>ObjectId\<close> is not
    modelled.
  \<^item> A request body is given as \<^verbatim>\<open>req.json()\<close> returns it. The field-keyed error map of a
    failed Zod validation is not modelled: a validation either succeeds with the parsed
    data or fails.

  Behaviour of Mongoose and of the MongoDB driver that the handlers meet.
  \<^item> \<^verbatim>\<open>save\<close> runs the validators and the hooks first. Given a \<^verbatim>\<open>session\<close> option that is not a
    session of the driver, it then throws a \<^verbatim>\<open>TypeError\<close> before any command is sent.
  \<^item> A nested path of a document (\<^verbatim>\<open>deliveryPartner\<close>, and \<^verbatim>\<open>currentLocation\<close> inside it) is
    never undefined: read from a document without a partner, it is an object whose leaves
    are undefined.
  \<^item> \<^verbatim>\<open>populate\<close> of a path that refers to a model throws \<^verbatim>\<open>MissingSchemaError\<close> when that
    model is not registered in the process.
  \<^item> A value assigned to a \<^verbatim>\<open>String\<close> path is cast: a string stays, \<^verbatim>\<open>null\<close> stays, and the
    cast of any other value is a parameter (\<open>cast_other\<close>); a failed cast makes the
    validation of \<^verbatim>\<open>save\<close> fail.
\<close>

subsection \<open>Data model\<close>

type_synonym date = int

datatype jdate = Date date | NotDate string

text \<open>A JSON value, as \<^verbatim>\<open>req.json()\<close> returns it.\<close>

datatype json =
  JNull | JBool bool | JNumber rat | JString string | JArray "json list"
  | JObject "(string \<times> json) list"

text \<open>
  What a path of a document holds where the handlers can put more than a value: nothing,
  \<^verbatim>\<open>null\<close>, a value, or a value that could not be cast.
\<close>

datatype 'a path = Undefined | Null | Value 'a | CastFailed

text \<open>The Gift document (\<^verbatim>\<open>IGift\<close>), with the fields the order routes read or write.\<close>

record gift =
  gift_name :: string
  gift_price :: rat
  inStock :: bool
  stockCount :: rat

record recipient =
  recipient_name :: string
  age :: rat
  gender :: string
  occasion :: "string option"

record order_item =
  item_gift :: string
  quantity :: rat
  price :: rat

record delivery_address =
  address :: string
  city :: string
  state :: string
  zipCode :: string

text \<open>Payment information as a request carries it (the status has a default) and as parsed.\<close>

record payment_input =
  payment_method_in :: string
  payment_status_in :: "string option"
  transactionId_in :: "string option"

record payment_info =
  payment_method :: string
  payment_status :: string
  transactionId :: "string option"

text \<open>
  The delivery partner as Zod reads it (a key that is missing is \<open>None\<close>), and as the nested
  path of a document, which is always there and has leaves that may be undefined.
\<close>

record location_input =
  lat_in :: "rat option"
  lng_in :: "rat option"

record partner_input =
  name_in :: "string option"
  phone_in :: "string option"
  currentLocation_in :: "location_input option"

record location =
  lat :: "rat option"
  lng :: "rat option"

record delivery_partner =
  partner_name :: "string option"
  phone :: "string option"
  currentLocation :: location

record tracking_input =
  tracking_status_in :: string
  timestamp_in :: "jdate option"
  description_in :: "string path"

record tracking_event =
  tracking_status :: string
  timestamp :: date
  description :: "string path"

text \<open>
  The input of \<^verbatim>\<open>OrderValidationSchema\<close>: the request body of the placement route, and the
  \<^verbatim>\<open>orderData\<close> object the pre-save hook builds from a document.
\<close>

record order_input =
  user_in :: "string option"
  recipient_in :: recipient
  items_in :: "order_item list"
  deliveryAddress_in :: delivery_address
  paymentInfo_in :: payment_input
  status_in :: "string option"
  deliveryTime_in :: "jdate option"
  specialInstructions_in :: "string path"
  totalAmount_in :: rat
  deliveryFee_in :: rat
  tax_in :: rat
  discount_in :: "rat option"
  deliveryPartner_in :: "partner_input option"
  tracking_in :: "tracking_input list option"

text \<open>
  The Order document (\<^verbatim>\<open>IOrder\<close>). The output of a successful parse has the same fields;
  \<open>createdAt\<close> and \<open>updatedAt\<close> are undefined until \<^verbatim>\<open>save\<close> sets them.
\<close>

record order =
  user :: string
  recipient :: recipient
  items :: "order_item list"
  deliveryAddress :: delivery_address
  paymentInfo :: payment_info
  status :: string
  deliveryTime :: date
  specialInstructions :: "string path"
  totalAmount :: rat
  deliveryFee :: rat
  tax :: rat
  discount :: rat
  deliveryPartner :: delivery_partner
  tracking :: "tracking_event list"
  createdAt :: "date option"
  updatedAt :: "date option"

text \<open>
  What a request finds around it: the clock, the identifier of a new document, whether the
  Gift model is registered in the process, and the operations the model takes as
  parameters, namely the rounded arithmetic of doubles and the cast to \<^verbatim>\<open>String\<close> of a value
  that is neither a string nor \<^verbatim>\<open>null\<close>.
\<close>

record env =
  now :: date
  new_id :: string
  Gift_registered :: bool
  fl_add :: "rat \<Rightarrow> rat \<Rightarrow> rat"
  fl_sub :: "rat \<Rightarrow> rat \<Rightarrow> rat"
  fl_mul :: "rat \<Rightarrow> rat \<Rightarrow> rat"
  cast_other :: "json \<Rightarrow> string path"

subsection \<open>The Zod schemas of the order model\<close>

definition digits :: "string \<Rightarrow> bool" where
  "digits s = list_all (\<lambda>c. c \<in> set ''0123456789'') s"

definition gender_enum :: "string list" where
  "gender_enum = [''boy'', ''girl'', ''unisex'']"

definition method_enum :: "string list" where
  "method_enum = [''credit_card'', ''debit_card'', ''upi'', ''wallet'', ''cash_on_delivery'']"

definition payment_status_enum :: "string list" where
  "payment_status_enum = [''pending'', ''completed'', ''failed'', ''refunded'']"

definition status_enum :: "string list" where
  "status_enum = [''pending'', ''confirmed'', ''preparing'', ''out_for_delivery'',
     ''delivered'', ''canceled'']"

text \<open>\<^verbatim>\<open>z.string().optional()\<close>: a string or nothing; \<^verbatim>\<open>null\<close> is refused.\<close>

definition optional_string :: "string path \<Rightarrow> bool" where
  "optional_string p = (case p of Undefined \<Rightarrow> True | Value _ \<Rightarrow> True | _ \<Rightarrow> False)"

definition RecipientSchema :: "recipient \<Rightarrow> bool" where
  "RecipientSchema r \<longleftrightarrow>
     2 \<le> length (recipient_name r) \<and> 0 \<le> age r \<and> gender r \<in> set gender_enum"

definition OrderItemSchema :: "order_item \<Rightarrow> bool" where
  "OrderItemSchema it \<longleftrightarrow> 1 \<le> length (item_gift it) \<and> 0 < quantity it \<and> 0 \<le> price it"

definition DeliveryAddressSchema :: "delivery_address \<Rightarrow> bool" where
  "DeliveryAddressSchema a \<longleftrightarrow>
     5 \<le> length (address a) \<and> 2 \<le> length (city a) \<and> 2 \<le> length (state a) \<and>
     digits (zipCode a) \<and> (length (zipCode a) = 5 \<or> length (zipCode a) = 6)"

definition PaymentInfoSchema :: "payment_input \<Rightarrow> bool" where
  "PaymentInfoSchema p \<longleftrightarrow>
     payment_method_in p \<in> set method_enum \<and>
     (case payment_status_in p of None \<Rightarrow> True | Some st \<Rightarrow> st \<in> set payment_status_enum)"

definition LocationSchema :: "location_input \<Rightarrow> bool" where
  "LocationSchema l \<longleftrightarrow> lat_in l \<noteq> None \<and> lng_in l \<noteq> None"

definition DeliveryPartnerSchema :: "partner_input \<Rightarrow> bool" where
  "DeliveryPartnerSchema d \<longleftrightarrow>
     name_in d \<noteq> None \<and>
     (case phone_in d of None \<Rightarrow> False | Some ph \<Rightarrow> digits ph \<and> length ph = 10) \<and>
     (case currentLocation_in d of None \<Rightarrow> True | Some l \<Rightarrow> LocationSchema l)"

definition is_date :: "jdate \<Rightarrow> bool" where
  "is_date j = (case j of Date _ \<Rightarrow> True | NotDate _ \<Rightarrow> False)"

definition TrackingEventSchema :: "tracking_input \<Rightarrow> bool" where
  "TrackingEventSchema t \<longleftrightarrow>
     1 \<le> length (tracking_status_in t) \<and>
     (case timestamp_in t of None \<Rightarrow> True | Some j \<Rightarrow> is_date j) \<and>
     optional_string (description_in t)"

text \<open>The object part of \<^verbatim>\<open>OrderValidationSchema\<close>: every field against its schema.\<close>

definition order_fields_ok :: "order_input \<Rightarrow> bool" where
  "order_fields_ok d \<longleftrightarrow>
     (case user_in d of None \<Rightarrow> False | Some u \<Rightarrow> 1 \<le> length u) \<and>
     RecipientSchema (recipient_in d) \<and>
     1 \<le> length (items_in d) \<and> list_all OrderItemSchema (items_in d) \<and>
     DeliveryAddressSchema (deliveryAddress_in d) \<and>
     PaymentInfoSchema (paymentInfo_in d) \<and>
     (case status_in d of None \<Rightarrow> True | Some st \<Rightarrow> st \<in> set status_enum) \<and>
     (case deliveryTime_in d of None \<Rightarrow> False | Some j \<Rightarrow> is_date j) \<and>
     optional_string (specialInstructions_in d) \<and>
     0 < totalAmount_in d \<and> 0 \<le> deliveryFee_in d \<and> 0 \<le> tax_in d \<and>
     (case discount_in d of None \<Rightarrow> True | Some x \<Rightarrow> 0 \<le> x) \<and>
     (case deliveryPartner_in d of None \<Rightarrow> True | Some p \<Rightarrow> DeliveryPartnerSchema p) \<and>
     (case tracking_in d of None \<Rightarrow> True | Some ts \<Rightarrow> list_all TrackingEventSchema ts)"

text \<open>
  The refinement of \<^verbatim>\<open>OrderValidationSchema\<close>. It runs on the parsed object, where the discount
  has its default \<open>0\<close>, and in the arithmetic of doubles: \<open>hundredth\<close> is the double that
  the literal \<^verbatim>\<open>0.01\<close> denotes, and \<^verbatim>\<open>Math.abs\<close> and \<^verbatim>\<open><\<close> are exact.
\<close>

definition hundredth :: rat where
  "hundredth = 5764607523034235 / 576460752303423488"

definition calculatedTotal :: "env \<Rightarrow> order_item list \<Rightarrow> rat" where
  "calculatedTotal e its =
     foldl (\<lambda>sum it. fl_add e sum (fl_mul e (price it) (quantity it))) 0 its"

definition expectedTotal :: "env \<Rightarrow> order_item list \<Rightarrow> rat \<Rightarrow> rat \<Rightarrow> rat \<Rightarrow> rat" where
  "expectedTotal e its fee tx disc =
     fl_sub e (fl_add e (fl_add e (calculatedTotal e its) fee) tx) disc"

definition total_refine :: "env \<Rightarrow> order_item list \<Rightarrow> rat \<Rightarrow> rat \<Rightarrow> rat \<Rightarrow> rat \<Rightarrow> bool" where
  "total_refine e its fee tx disc amount \<longleftrightarrow>
     \<bar>fl_sub e (expectedTotal e its fee tx disc) amount\<bar> < hundredth"

definition date_of :: "jdate \<Rightarrow> date" where
  "date_of j = (case j of Date t \<Rightarrow> t | NotDate _ \<Rightarrow> 0)"

definition parse_payment :: "payment_input \<Rightarrow> payment_info" where
  "parse_payment p =
     \<lparr>payment_method = payment_method_in p,
      payment_status = (case payment_status_in p of None \<Rightarrow> ''pending'' | Some st \<Rightarrow> st),
      transactionId = transactionId_in p\<rparr>"

definition parse_tracking :: "date \<Rightarrow> tracking_input \<Rightarrow> tracking_event" where
  "parse_tracking t x =
     \<lparr>tracking_status = tracking_status_in x,
      timestamp = (case timestamp_in x of None \<Rightarrow> t | Some j \<Rightarrow> date_of j),
      description = description_in x\<rparr>"

text \<open>The nested path that \<^verbatim>\<open>new Order\<close> fills from the partner of the parsed object.\<close>

definition partner_path :: "partner_input option \<Rightarrow> delivery_partner" where
  "partner_path p =
     (case p of
        None \<Rightarrow> \<lparr>partner_name = None, phone = None, currentLocation = \<lparr>lat = None, lng = None\<rparr>\<rparr>
      | Some x \<Rightarrow>
          \<lparr>partner_name = name_in x, phone = phone_in x,
           currentLocation =
             (case currentLocation_in x of
                None \<Rightarrow> \<lparr>lat = None, lng = None\<rparr>
              | Some l \<Rightarrow> \<lparr>lat = lat_in l, lng = lng_in l\<rparr>)\<rparr>)"

text \<open>The parsed object, defaults applied, as the document \<^verbatim>\<open>new Order\<close> makes of it.\<close>

definition parsed :: "date \<Rightarrow> order_input \<Rightarrow> order" where
  "parsed t d =
     \<lparr>user = (case user_in d of None \<Rightarrow> [] | Some u \<Rightarrow> u),
      recipient = recipient_in d,
      items = items_in d,
      deliveryAddress = deliveryAddress_in d,
      paymentInfo = parse_payment (paymentInfo_in d),
      status = (case status_in d of None \<Rightarrow> ''pending'' | Some st \<Rightarrow> st),
      deliveryTime = (case deliveryTime_in d of None \<Rightarrow> 0 | Some j \<Rightarrow> date_of j),
      specialInstructions = specialInstructions_in d,
      totalAmount = totalAmount_in d,
      deliveryFee = deliveryFee_in d,
      tax = tax_in d,
      discount = (case discount_in d of None \<Rightarrow> 0 | Some x \<Rightarrow> x),
      deliveryPartner = partner_path (deliveryPartner_in d),
      tracking = (case tracking_in d of None \<Rightarrow> [] | Some ts \<Rightarrow> map (parse_tracking t) ts),
      createdAt = None,
      updatedAt = None\<rparr>"

definition OrderValidationSchema :: "env \<Rightarrow> order_input \<Rightarrow> order option" where
  "OrderValidationSchema e d =
     (if order_fields_ok d \<and>
         total_refine e (items_in d) (deliveryFee_in d) (tax_in d)
           (case discount_in d of None \<Rightarrow> 0 | Some x \<Rightarrow> x) (totalAmount_in d)
      then Some (parsed (now e) d) else None)"

text \<open>\<^verbatim>\<open>validateData\<close>: the parsed data on success, nothing on failure.\<close>

definition validateData :: "(order_input \<Rightarrow> order option) \<Rightarrow> order_input \<Rightarrow> order option" where
  "validateData schema data = schema data"

subsection \<open>The Mongoose schema and the pre-save hook of the order model\<close>

text \<open>
  The validators declared in \<^verbatim>\<open>OrderSchema\<close> (\<^verbatim>\<open>required\<close>, \<^verbatim>\<open>min\<close>, \<^verbatim>\<open>enum\<close>), and the casts
  that must not have failed. A required string must not be empty. For a document read
  from the store Mongoose may skip the validators of paths that were not modified; the
  model runs them all.
\<close>

definition OrderSchema :: "order \<Rightarrow> bool" where
  "OrderSchema d \<longleftrightarrow>
     user d \<noteq> [] \<and>
     recipient_name (recipient d) \<noteq> [] \<and> 0 \<le> age (recipient d) \<and>
     gender (recipient d) \<in> set gender_enum \<and>
     list_all (\<lambda>it. item_gift it \<noteq> [] \<and> 1 \<le> quantity it) (items d) \<and>
     address (deliveryAddress d) \<noteq> [] \<and> city (deliveryAddress d) \<noteq> [] \<and>
     state (deliveryAddress d) \<noteq> [] \<and> zipCode (deliveryAddress d) \<noteq> [] \<and>
     payment_method (paymentInfo d) \<in> set method_enum \<and>
     payment_status (paymentInfo d) \<in> set payment_status_enum \<and>
     status d \<in> set status_enum \<and>
     specialInstructions d \<noteq> CastFailed \<and>
     list_all (\<lambda>t. tracking_status t \<noteq> [] \<and> description t \<noteq> CastFailed) (tracking d)"

text \<open>
  The object the hook \<^verbatim>\<open>OrderSchema.pre("save")\<close> hands to \<^verbatim>\<open>OrderValidationSchema.parse\<close>.
  \<^verbatim>\<open>this.deliveryPartner\<close> is a nested path: the hook passes an object even when the document
  has no partner, and so does the \<^verbatim>\<open>currentLocation\<close> inside it.
\<close>

definition orderData :: "order \<Rightarrow> order_input" where
  "orderData d =
     \<lparr>user_in = Some (user d),
      recipient_in = recipient d,
      items_in = map (\<lambda>it. \<lparr>item_gift = item_gift it, quantity = quantity it, price = price it\<rparr>)
                   (items d),
      deliveryAddress_in = deliveryAddress d,
      paymentInfo_in =
        \<lparr>payment_method_in = payment_method (paymentInfo d),
         payment_status_in = Some (payment_status (paymentInfo d)),
         transactionId_in = transactionId (paymentInfo d)\<rparr>,
      status_in = Some (status d),
      deliveryTime_in = Some (Date (deliveryTime d)),
      specialInstructions_in = specialInstructions d,
      totalAmount_in = totalAmount d,
      deliveryFee_in = deliveryFee d,
      tax_in = tax d,
      discount_in = Some (discount d),
      deliveryPartner_in =
        Some \<lparr>name_in = partner_name (deliveryPartner d),
              phone_in = phone (deliveryPartner d),
              currentLocation_in =
                Some \<lparr>lat_in = lat (currentLocation (deliveryPartner d)),
                      lng_in = lng (currentLocation (deliveryPartner d))\<rparr>\<rparr>,
      tracking_in =
        Some (map (\<lambda>t. \<lparr>tracking_status_in = tracking_status t,
                          timestamp_in = Some (Date (timestamp t)),
                          description_in = description t\<rparr>) (tracking d))\<rparr>"

definition pre_save :: "env \<Rightarrow> order \<Rightarrow> bool" where
  "pre_save e d \<longleftrightarrow> OrderValidationSchema e (orderData d) \<noteq> None"

subsection \<open>The database\<close>

datatype db_call =
  Connect | StartSession | StartTransaction | CommitTransaction | AbortTransaction | EndSession
  | FindGift string | SaveGift string | FindOrder string | PopulateGifts "string list"
  | SaveOrder string

record database =
  gifts :: "string \<rightharpoonup> gift"
  orders :: "string \<rightharpoonup> order"
  calls :: "db_call list"

text \<open>The writes an open transaction holds back until it commits.\<close>

record transaction =
  tx_gifts :: "string \<rightharpoonup> gift"
  tx_orders :: "string \<rightharpoonup> order"

text \<open>
  The two objects the placement handler calls a session: \<^verbatim>\<open>orderSession\<close>, the session of
  \<^verbatim>\<open>mongoose.startSession()\<close> on which the transaction runs, and \<^verbatim>\<open>session\<close>, the login session
  of \<^verbatim>\<open>getServerSession\<close>, which is no session of the driver.
\<close>

datatype session_value = OrderSession | LoginSession

datatype thrown =
  Error string | TypeError | ValidationError | ZodError | DuplicateKey | MissingSchemaError

text \<open>
  The replies: an order (status code, identifier, fields), an order with its gifts
  populated, the error map of a failed validation, and an error message; \<open>Reply_thrown\<close>
  stands for a message that a library composed for the error it threw.
\<close>

datatype response =
  Reply_order nat string order
  | Reply_populated nat string order "gift option list"
  | Reply_errors nat
  | Reply_error nat string
  | Reply_thrown nat thrown

definition call :: "db_call \<Rightarrow> database \<Rightarrow> database" where
  "call c db = db\<lparr>calls := calls db @ [c]\<rparr>"

definition connectToDatabase :: "database \<Rightarrow> database" where
  "connectToDatabase db = call Connect db"

definition startTransaction :: "database \<Rightarrow> transaction \<times> database" where
  "startTransaction db =
     (\<lparr>tx_gifts = Map.empty, tx_orders = Map.empty\<rparr>, call StartTransaction (call StartSession db))"

definition commitTransaction :: "transaction \<Rightarrow> database \<Rightarrow> database" where
  "commitTransaction tx db =
     call CommitTransaction
       (db\<lparr>gifts := gifts db ++ tx_gifts tx, orders := orders db ++ tx_orders tx\<rparr>)"

definition abortTransaction :: "transaction \<Rightarrow> database \<Rightarrow> database" where
  "abortTransaction tx db = call AbortTransaction db"

definition endSession :: "database \<Rightarrow> database" where
  "endSession db = call EndSession db"

text \<open>\<^verbatim>\<open>Gift.findById(id).session(orderSession)\<close>: a read inside the transaction.\<close>

definition Gift_findById :: "string \<Rightarrow> transaction \<Rightarrow> database \<Rightarrow> gift option \<times> database" where
  "Gift_findById i tx db = ((gifts db ++ tx_gifts tx) i, call (FindGift i) db)"

text \<open>
  \<^verbatim>\<open>gift.save(options)\<close> for a gift read from the store. The one validator of a path the
  placement handler modifies is \<^verbatim>\<open>min: 0\<close> on \<^verbatim>\<open>stockCount\<close>. With the session of the
  transaction the write joins the transaction, with no session it goes to the collection,
  and with the login session the driver throws before it sends anything.
\<close>

definition Gift_save ::
  "session_value option \<Rightarrow> string \<Rightarrow> gift \<Rightarrow> transaction \<Rightarrow> database
     \<Rightarrow> (thrown + unit) \<times> transaction \<times> database" where
  "Gift_save opt i g tx db =
     (if stockCount g < 0 then (Inl ValidationError, tx, db)
      else
        case opt of
          Some LoginSession \<Rightarrow> (Inl TypeError, tx, db)
        | Some OrderSession \<Rightarrow>
            (Inr (), tx\<lparr>tx_gifts := (tx_gifts tx)(i \<mapsto> g)\<rparr>, call (SaveGift i) db)
        | None \<Rightarrow> (Inr (), tx, call (SaveGift i) (db\<lparr>gifts := (gifts db)(i \<mapsto> g)\<rparr>)))"

text \<open>
  \<^verbatim>\<open>order.save(options)\<close> for the document with identifier \<open>i\<close> and fields \<open>d\<close>: the schema
  validators, the pre-save hook, the timestamps (\<^verbatim>\<open>timestamps: true\<close>), then an insert for a
  new document and an update otherwise. A document read from the store of which no path
  was modified is not written again, and its \<open>updatedAt\<close> stays. It returns the fields as
  saved.
\<close>

definition Order_save ::
  "env \<Rightarrow> bool \<Rightarrow> session_value option \<Rightarrow> string \<Rightarrow> order \<Rightarrow> transaction \<Rightarrow> database
     \<Rightarrow> (thrown + order) \<times> transaction \<times> database" where
  "Order_save e isNew opt i d tx db =
     (if \<not> OrderSchema d then (Inl ValidationError, tx, db)
      else if \<not> pre_save e d then (Inl ZodError, tx, db)
      else if opt = Some LoginSession then (Inl TypeError, tx, db)
      else if \<not> isNew \<and>
              (if opt = Some OrderSession then orders db ++ tx_orders tx else orders db) i = Some d
      then (Inr d, tx, db)
      else
        let d' = (if isNew then d\<lparr>createdAt := Some (now e), updatedAt := Some (now e)\<rparr>
                  else d\<lparr>updatedAt := Some (now e)\<rparr>);
            db' = call (SaveOrder i) db
        in if opt = Some OrderSession
           then (if isNew \<and> (orders db ++ tx_orders tx) i \<noteq> None
                 then (Inl DuplicateKey, tx, db')
                 else (Inr d', tx\<lparr>tx_orders := (tx_orders tx)(i \<mapsto> d')\<rparr>, db'))
           else (if isNew \<and> orders db i \<noteq> None
                 then (Inl DuplicateKey, tx, db')
                 else (Inr d', tx, db'\<lparr>orders := (orders db')(i \<mapsto> d')\<rparr>)))"

subsection \<open>Placing an order: \<^verbatim>\<open>POST /api/orders\<close>\<close>

text \<open>
  The caller is the value of \<^verbatim>\<open>session?.user?.id\<close>: \<open>None\<close> when there is no session, no user
  or no id. The empty string is falsy, as \<open>None\<close> is.
\<close>

definition authenticated :: "string option \<Rightarrow> bool" where
  "authenticated caller = (case caller of None \<Rightarrow> False | Some uid \<Rightarrow> uid \<noteq> [])"

definition falsy_time :: "jdate option \<Rightarrow> bool" where
  "falsy_time j = (case j of None \<Rightarrow> True | Some (NotDate x) \<Rightarrow> x = [] | Some (Date _) \<Rightarrow> False)"

text \<open>Lines 36 to 44: the owner is stamped, the delivery time defaults to one hour from now.\<close>

definition prepare_body :: "env \<Rightarrow> string \<Rightarrow> order_input \<Rightarrow> order_input" where
  "prepare_body e uid body =
     (let body1 = body\<lparr>user_in := Some uid\<rparr>
      in if falsy_time (deliveryTime_in body1)
         then body1\<lparr>deliveryTime_in := Some (Date (now e + 3600000))\<rparr>
         else body1)"

definition out_of_stock :: "string \<Rightarrow> string" where
  "out_of_stock i = ''Gift '' @ i @ '' is out of stock or unavailable''"

text \<open>Lines 73 to 77: the stock is taken from the document in memory.\<close>

definition take_stock :: "env \<Rightarrow> gift \<Rightarrow> rat \<Rightarrow> gift" where
  "take_stock e g q =
     (let g1 = g\<lparr>stockCount := fl_sub e (stockCount g) q\<rparr>
      in if stockCount g1 = 0 then g1\<lparr>inStock := False\<rparr> else g1)"

text \<open>
  The loop over the items (lines 62 to 80). The gift is read on \<^verbatim>\<open>orderSession\<close>; it is saved
  with \<^verbatim>\<open>{ session }\<close>, and \<^verbatim>\<open>session\<close> is the login session.
\<close>

fun update_inventory ::
  "env \<Rightarrow> order_item list \<Rightarrow> transaction \<Rightarrow> database
     \<Rightarrow> (thrown + unit) \<times> transaction \<times> database"
where
  "update_inventory e [] tx db = (Inr (), tx, db)"
| "update_inventory e (it # its) tx db =
     (case Gift_findById (item_gift it) tx db of
        (None, db1) \<Rightarrow> (Inl (Error (out_of_stock (item_gift it))), tx, db1)
      | (Some g, db1) \<Rightarrow>
          if \<not> inStock g \<or> stockCount g < quantity it
          then (Inl (Error (out_of_stock (item_gift it))), tx, db1)
          else
            (case Gift_save (Some LoginSession) (item_gift it)
                    (take_stock e g (quantity it)) tx db1 of
               (Inl err, tx2, db2) \<Rightarrow> (Inl err, tx2, db2)
             | (Inr _, tx2, db2) \<Rightarrow> update_inventory e its tx2 db2))"

definition order_received :: "date \<Rightarrow> tracking_event" where
  "order_received t =
     \<lparr>tracking_status = ''pending'', timestamp = t, description = Value ''Order received''\<rparr>"

text \<open>The reply of the outer \<^verbatim>\<open>catch\<close>: status 500 with the message of the error.\<close>

definition create_failed :: "thrown \<Rightarrow> response" where
  "create_failed err = (case err of Error m \<Rightarrow> Reply_error 500 m | _ \<Rightarrow> Reply_thrown 500 err)"

text \<open>
  The handler. \<^verbatim>\<open>new Order(validation.data)\<close> is the parsed data under the identifier
  \<open>new_id\<close>; its tracking is replaced before it is saved with \<^verbatim>\<open>{ session }\<close>.
\<close>

definition POST :: "env \<Rightarrow> string option \<Rightarrow> order_input \<Rightarrow> database \<Rightarrow> response \<times> database" where
  "POST e caller body db0 =
     (let db1 = connectToDatabase db0
      in case caller of
           None \<Rightarrow> (Reply_error 401 ''Authentication required'', db1)
         | Some uid \<Rightarrow>
             if uid = [] then (Reply_error 401 ''Authentication required'', db1)
             else
               (case validateData (OrderValidationSchema e) (prepare_body e uid body) of
                  None \<Rightarrow> (Reply_errors 400, db1)
                | Some data \<Rightarrow>
                   (case startTransaction db1 of
                      (tx0, db2) \<Rightarrow>
                        (case update_inventory e (items data) tx0 db2 of
                           (Inl err, tx1, db3) \<Rightarrow>
                             (create_failed err, endSession (abortTransaction tx1 db3))
                         | (Inr _, tx1, db3) \<Rightarrow>
                             (case Order_save e True (Some LoginSession) (new_id e)
                                     (data\<lparr>tracking := [order_received (now e)]\<rparr>) tx1 db3 of
                                (Inl err, tx2, db4) \<Rightarrow>
                                  (create_failed err, endSession (abortTransaction tx2 db4))
                              | (Inr d, tx2, db4) \<Rightarrow>
                                  (Reply_order 201 (new_id e) d,
                                   endSession (commitTransaction tx2 db4)))))))"

subsection \<open>Reading and updating one order: \<^verbatim>\<open>/api/orders/[id]\<close>\<close>

definition Order_findById :: "string \<Rightarrow> database \<Rightarrow> order option \<times> database" where
  "Order_findById i db = (orders db i, call (FindOrder i) db)"

text \<open>
  \<^verbatim>\<open>populate("items.gift")\<close>: the gift of every item, looked up in the catalog. The route
  imports the Order model only; when no other module has registered the Gift model,
  \<^verbatim>\<open>populate\<close> throws before it queries.
\<close>

definition populate :: "env \<Rightarrow> order \<Rightarrow> database \<Rightarrow> (thrown + gift option list) \<times> database" where
  "populate e d db =
     (if Gift_registered e
      then (Inr (map (\<lambda>it. gifts db (item_gift it)) (items d)),
            call (PopulateGifts (map item_gift (items d))) db)
      else (Inl MissingSchemaError, db))"

text \<open>The handler; its \<^verbatim>\<open>catch\<close> replies with status 500 and a fixed message.\<close>

definition GET :: "env \<Rightarrow> string option \<Rightarrow> string \<Rightarrow> database \<Rightarrow> response \<times> database" where
  "GET e caller i db0 =
     (let db1 = connectToDatabase db0
      in case caller of
           None \<Rightarrow> (Reply_error 401 ''Authentication required'', db1)
         | Some uid \<Rightarrow>
             if uid = [] then (Reply_error 401 ''Authentication required'', db1)
             else
               (case Order_findById i db1 of
                  (None, db2) \<Rightarrow> (Reply_error 404 ''Order not found'', db2)
                | (Some d, db2) \<Rightarrow>
                    (case populate e d db2 of
                       (Inl err, db3) \<Rightarrow> (Reply_error 500 ''Failed to fetch order'', db3)
                     | (Inr gs, db3) \<Rightarrow>
                         if user d \<noteq> uid then (Reply_error 403 ''Access denied'', db3)
                         else (Reply_populated 200 i d gs, db3))))"

text \<open>
  Reading a property of the body of an update request. \<^verbatim>\<open>JSON.parse\<close> keeps the last of
  several equal keys. A body that is not an object has no such property; reading a
  property of \<^verbatim>\<open>null\<close> throws.
\<close>

definition property :: "string \<Rightarrow> json \<Rightarrow> json option" where
  "property name body = (case body of JObject fs \<Rightarrow> map_of (rev fs) name | _ \<Rightarrow> None)"

definition truthy :: "json \<Rightarrow> bool" where
  "truthy j =
     (case j of JNull \<Rightarrow> False | JBool b \<Rightarrow> b | JNumber n \<Rightarrow> n \<noteq> 0 | JString s \<Rightarrow> s \<noteq> []
      | _ \<Rightarrow> True)"

text \<open>The cast of a value assigned to a \<^verbatim>\<open>String\<close> path.\<close>

definition cast_string :: "env \<Rightarrow> json \<Rightarrow> string path" where
  "cast_string e j = (case j of JString s \<Rightarrow> Value s | JNull \<Rightarrow> Null | _ \<Rightarrow> cast_other e j)"

definition updatable :: "string \<Rightarrow> bool" where
  "updatable st \<longleftrightarrow> st \<in> set [''pending'', ''confirmed'']"

text \<open>\<^verbatim>\<open>body.cancellationReason || "Canceled by customer"\<close>, cast as the path of the event.\<close>

definition cancel_description :: "env \<Rightarrow> json option \<Rightarrow> string path" where
  "cancel_description e r =
     (case r of None \<Rightarrow> Value ''Canceled by customer''
      | Some j \<Rightarrow> if truthy j then cast_string e j else Value ''Canceled by customer'')"

text \<open>Lines 112 to 114.\<close>

definition set_instructions :: "env \<Rightarrow> json \<Rightarrow> order \<Rightarrow> order" where
  "set_instructions e body d =
     (case property ''specialInstructions'' body of
        None \<Rightarrow> d
      | Some j \<Rightarrow> d\<lparr>specialInstructions := cast_string e j\<rparr>)"

text \<open>Lines 117 to 129.\<close>

definition handle_cancellation :: "env \<Rightarrow> json \<Rightarrow> order \<Rightarrow> order" where
  "handle_cancellation e body d =
     (if property ''status'' body = Some (JString ''canceled'') \<and> updatable (status d)
      then d\<lparr>status := ''canceled'',
             tracking := tracking d @
               [\<lparr>tracking_status = ''canceled'', timestamp = now e,
                 description = cancel_description e (property ''cancellationReason'' body)\<rparr>]\<rparr>
      else d)"

text \<open>The handler; its \<^verbatim>\<open>catch\<close> replies with status 500 and a fixed message.\<close>

definition PUT :: "env \<Rightarrow> string option \<Rightarrow> string \<Rightarrow> json \<Rightarrow> database \<Rightarrow> response \<times> database" where
  "PUT e caller i body db0 =
     (let db1 = connectToDatabase db0
      in case caller of
           None \<Rightarrow> (Reply_error 401 ''Authentication required'', db1)
         | Some uid \<Rightarrow>
             if uid = [] then (Reply_error 401 ''Authentication required'', db1)
             else
               (case Order_findById i db1 of
                  (None, db2) \<Rightarrow> (Reply_error 404 ''Order not found'', db2)
                | (Some d, db2) \<Rightarrow>
                    if user d \<noteq> uid then (Reply_error 403 ''Access denied'', db2)
                    else if \<not> updatable (status d)
                    then (Reply_error 400 ''Order cannot be updated at this stage'', db2)
                    else if body = JNull
                    then (Reply_error 500 ''Failed to update order'', db2)
                    else
                      (case Order_save e False None i
                              (handle_cancellation e body (set_instructions e body d))
                              \<lparr>tx_gifts = Map.empty, tx_orders = Map.empty\<rparr> db2 of
                         (Inl err, tx, db3) \<Rightarrow> (Reply_error 500 ''Failed to update order'', db3)
                       | (Inr d', tx, db3) \<Rightarrow> (Reply_order 200 i d', db3))))"

subsection \<open>Properties used in the statements\<close>

text \<open>An item fails the stock check of line 69 against the gift found for it, if any.\<close>

definition unavailable :: "gift option \<Rightarrow> order_item \<Rightarrow> bool" where
  "unavailable found it =
     (case found of None \<Rightarrow> True | Some g \<Rightarrow> \<not> inStock g \<or> stockCount g < quantity it)"

text \<open>
  The document an update request hands to \<^verbatim>\<open>save\<close>, and the document that is stored and
  returned when the save succeeds.
\<close>

definition patched :: "env \<Rightarrow> json \<Rightarrow> order \<Rightarrow> order" where
  "patched e body d = handle_cancellation e body (set_instructions e body d)"

definition updated :: "env \<Rightarrow> json \<Rightarrow> order \<Rightarrow> order" where
  "updated e body d =
     (if patched e body d = d then d else (patched e body d)\<lparr>updatedAt := Some (now e)\<rparr>)"


subsection \<open>A catalog, requests and stored orders\<close>

text \<open>
  Concrete data on which the handlers are run below. The numbers are small integers and
  halves, on which the arithmetic of doubles is exact, and no example casts a value that
  is neither a string nor \<^verbatim>\<open>null\<close>.
\<close>

definition clock :: env where
  "clock = \<lparr>now = 1000, new_id = ''o1'', Gift_registered = True,
            fl_add = (+), fl_sub = (-), fl_mul = (*), cast_other = (\<lambda>j. CastFailed)\<rparr>"

definition teddy :: gift where
  "teddy = \<lparr>gift_name = ''Teddy bear'', gift_price = 10, inStock = True, stockCount = 5\<rparr>"

definition robot :: gift where
  "robot = \<lparr>gift_name = ''Robot'', gift_price = 20, inStock = False, stockCount = 0\<rparr>"

definition shop :: database where
  "shop = \<lparr>gifts = [''g1'' \<mapsto> teddy, ''g2'' \<mapsto> robot], orders = Map.empty, calls = []\<rparr>"

definition basket :: "order_item list \<Rightarrow> rat \<Rightarrow> order_input" where
  "basket its amount =
     \<lparr>user_in = None,
      recipient_in = \<lparr>recipient_name = ''Sam'', age = 7, gender = ''boy'', occasion = None\<rparr>,
      items_in = its,
      deliveryAddress_in =
        \<lparr>address = ''12 Main St'', city = ''Pune'', state = ''MH'', zipCode = ''411001''\<rparr>,
      paymentInfo_in =
        \<lparr>payment_method_in = ''upi'', payment_status_in = None, transactionId_in = None\<rparr>,
      status_in = None,
      deliveryTime_in = None,
      specialInstructions_in = Undefined,
      totalAmount_in = amount,
      deliveryFee_in = 5,
      tax_in = 1,
      discount_in = None,
      deliveryPartner_in = None,
      tracking_in = None\<rparr>"

definition two_teddies :: order_input where
  "two_teddies = basket [\<lparr>item_gift = ''g1'', quantity = 2, price = 10\<rparr>] 26"

definition teddy_and_robot :: order_input where
  "teddy_and_robot =
     basket [\<lparr>item_gift = ''g1'', quantity = 1, price = 10\<rparr>,
             \<lparr>item_gift = ''g2'', quantity = 1, price = 20\<rparr>] 36"

definition half_a_teddy :: order_input where
  "half_a_teddy = basket [\<lparr>item_gift = ''g1'', quantity = 1 / 2, price = 10\<rparr>] 11"

definition no_partner :: delivery_partner where
  "no_partner = \<lparr>partner_name = None, phone = None, currentLocation = \<lparr>lat = None, lng = None\<rparr>\<rparr>"

definition courier :: delivery_partner where
  "courier = \<lparr>partner_name = Some ''Asha'', phone = Some ''9876543210'',
              currentLocation = \<lparr>lat = Some 18, lng = Some 74\<rparr>\<rparr>"

definition placed :: "string \<Rightarrow> delivery_partner \<Rightarrow> order" where
  "placed st p =
     \<lparr>user = ''u1'',
      recipient = \<lparr>recipient_name = ''Sam'', age = 7, gender = ''boy'', occasion = None\<rparr>,
      items = [\<lparr>item_gift = ''g1'', quantity = 2, price = 10\<rparr>],
      deliveryAddress =
        \<lparr>address = ''12 Main St'', city = ''Pune'', state = ''MH'', zipCode = ''411001''\<rparr>,
      paymentInfo =
        \<lparr>payment_method = ''upi'', payment_status = ''pending'', transactionId = None\<rparr>,
      status = st,
      deliveryTime = 3601000,
      specialInstructions = Undefined,
      totalAmount = 26,
      deliveryFee = 5,
      tax = 1,
      discount = 0,
      deliveryPartner = p,
      tracking = [\<lparr>tracking_status = ''pending'', timestamp = 1000,
                   description = Value ''Order received''\<rparr>],
      createdAt = Some 1000,
      updatedAt = Some 1000\<rparr>"

definition ledger :: "string \<Rightarrow> delivery_partner \<Rightarrow> database" where
  "ledger st p = \<lparr>gifts = [''g1'' \<mapsto> teddy], orders = [''o1'' \<mapsto> placed st p], calls = []\<rparr>"



definition mark_delivered :: json where
  "mark_delivered = JObject [(''status'', JString ''delivered'')]"


section \<open>Verification\<close>

subsection \<open>Saving with the login session\<close>

lemma call_simps [simp]:
  "gifts (call c db) = gifts db" "orders (call c db) = orders db"
  "calls (call c db) = calls db @ [c]"
  by (simp_all add: call_def)

text \<open>
  A save that is given the login session throws and writes nothing.
\<close>

lemma Gift_save_login:
  "Gift_save (Some LoginSession) i g tx db = (r, tx', db') \<Longrightarrow>
   tx' = tx \<and> db' = db \<and> (\<exists>err. r = Inl err)"
  by (auto simp: Gift_save_def split: if_splits)

lemma Order_save_login:
  "Order_save e isNew (Some LoginSession) i d tx db = (r, tx', db') \<Longrightarrow>
   tx' = tx \<and> db' = db \<and> (\<exists>err. r = Inl err)"
  by (auto simp: Order_save_def split: if_splits)

text \<open>
  The loop over the items ends at its first item with an error, and only reads.
\<close>

lemma update_inventory_throws:
  assumes "update_inventory e (it # its) tx db = (r, tx', db')"
  shows "tx' = tx \<and> db' = call (FindGift (item_gift it)) db \<and> (\<exists>err. r = Inl err)"
proof (cases "(gifts db ++ tx_gifts tx) (item_gift it)")
  case None
  with assms show ?thesis by (auto simp: Gift_findById_def)
next
  case (Some g)
  show ?thesis
  proof (cases "\<not> inStock g \<or> stockCount g < quantity it")
    case True
    with assms Some show ?thesis by (auto simp: Gift_findById_def)
  next
    case False
    obtain r2 tx2 db2 where sv: "Gift_save (Some LoginSession) (item_gift it)
        (take_stock e g (quantity it)) tx (call (FindGift (item_gift it)) db) = (r2, tx2, db2)"
      by (metis prod_cases3)
    from Gift_save_login[OF sv] obtain err where
      "tx2 = tx" "db2 = call (FindGift (item_gift it)) db" "r2 = Inl err"
      by auto
    with assms Some False sv show ?thesis
      by (auto simp: Gift_findById_def)
  qed
qed

lemma update_inventory_reads:
  assumes "update_inventory e its tx db = (r, tx', db')"
  shows "tx' = tx \<and> gifts db' = gifts db \<and> orders db' = orders db"
proof (cases its)
  case Nil
  with assms show ?thesis by simp
next
  case (Cons it rest)
  from assms have "update_inventory e (it # rest) tx db = (r, tx', db')"
    unfolding Cons .
  from update_inventory_throws[OF this] show ?thesis by simp
qed

subsection \<open>The runs of the handlers\<close>

lemma prepare_body_simps [simp]:
  "user_in (prepare_body e uid b) = Some uid"
  "items_in (prepare_body e uid b) = items_in b"
  "status_in (prepare_body e uid b) = status_in b"
  by (simp_all add: prepare_body_def Let_def)


lemma parsed_simps [simp]:
  "items (parsed t b) = items_in b"
  "user (parsed t b) = (case user_in b of None \<Rightarrow> [] | Some u \<Rightarrow> u)"
  by (simp_all add: parsed_def)

lemma POST_no_caller:
  "\<not> authenticated caller \<Longrightarrow>
   POST e caller body db = (Reply_error 401 ''Authentication required'', call Connect db)"
  by (auto simp: POST_def authenticated_def connectToDatabase_def split: option.splits)

lemma POST_invalid:
  "uid \<noteq> [] \<Longrightarrow> validateData (OrderValidationSchema e) (prepare_body e uid body) = None \<Longrightarrow>
   POST e (Some uid) body db = (Reply_errors 400, call Connect db)"
  by (simp add: POST_def connectToDatabase_def)

lemma create_failed_no_order: "create_failed err \<noteq> Reply_order c i d"
  by (simp add: create_failed_def split: thrown.splits)

text \<open>
  No placement call writes a gift or an order, and none replies with an order.
\<close>

lemma POST_writes_nothing:
  assumes "POST e caller body db = (r, db')"
  shows "gifts db' = gifts db \<and> orders db' = orders db \<and> r \<noteq> Reply_order c i d"
proof (cases "authenticated caller")
  case False
  from POST_no_caller[OF False] assms show ?thesis by auto
next
  case True
  then obtain uid where uid: "caller = Some uid" "uid \<noteq> []"
    by (auto simp: authenticated_def split: option.splits)
  show ?thesis
  proof (cases "validateData (OrderValidationSchema e) (prepare_body e uid body)")
    case None
    from POST_invalid[OF uid(2) None] assms uid show ?thesis by auto
  next
    case (Some data)
    let ?db2 = "call StartTransaction (call StartSession (call Connect db))"
    let ?tx0 = "\<lparr>tx_gifts = Map.empty, tx_orders = Map.empty\<rparr>"
    obtain res tx1 db3 where loop: "update_inventory e (items data) ?tx0 ?db2 = (res, tx1, db3)"
      by (metis prod_cases3)
    from update_inventory_reads[OF loop]
    have fr: "tx1 = ?tx0" "gifts db3 = gifts db" "orders db3 = orders db" by simp_all
    show ?thesis
    proof (cases res)
      case (Inl err)
      with assms uid Some loop fr show ?thesis
        by (auto simp: POST_def connectToDatabase_def startTransaction_def endSession_def
            abortTransaction_def create_failed_no_order)
    next
      case (Inr u)
      obtain sres tx2 db4 where sv: "Order_save e True (Some LoginSession) (new_id e)
          (data\<lparr>tracking := [order_received (now e)]\<rparr>) ?tx0 db3 = (sres, tx2, db4)"
        by (metis prod_cases3)
      from Order_save_login[OF sv] obtain err where "tx2 = ?tx0" "db4 = db3" "sres = Inl err"
        by auto
      with assms uid Some loop fr Inr sv show ?thesis
        by (auto simp: POST_def connectToDatabase_def startTransaction_def endSession_def
            abortTransaction_def create_failed_no_order)
    qed
  qed
qed

text \<open>
  An update either leaves both collections alone or saves the patched document.
\<close>

lemma PUT_cases:
  assumes "PUT e caller i body db = (r, db')"
  obtains (refused) "orders db' = orders db" "gifts db' = gifts db" "\<forall>c k d. r \<noteq> Reply_order c k d"
  | (saved) uid d where "caller = Some uid" "uid \<noteq> []" "orders db i = Some d" "user d = uid"
      "updatable (status d)" "OrderSchema (patched e body d)" "pre_save e (patched e body d)"
      "r = Reply_order 200 i (updated e body d)"
      "orders db' = (orders db)(i \<mapsto> updated e body d)"
      "gifts db' = gifts db"
proof (cases "authenticated caller")
  case False
  with assms have "orders db' = orders db \<and> gifts db' = gifts db \<and> (\<forall>c k d. r \<noteq> Reply_order c k d)"
    by (auto simp: PUT_def authenticated_def connectToDatabase_def split: option.splits)
  then show thesis using refused by blast
next
  case True
  then obtain uid where uid: "caller = Some uid" "uid \<noteq> []"
    by (auto simp: authenticated_def split: option.splits)
  show thesis
  proof (cases "orders db i")
    case None
    with assms uid have "orders db' = orders db \<and> gifts db' = gifts db \<and> (\<forall>c k d. r \<noteq> Reply_order c k d)"
      by (auto simp: PUT_def connectToDatabase_def Order_findById_def)
    then show thesis using refused by blast
  next
    case (Some d)
    show thesis
    proof (cases "user d = uid \<and> updatable (status d) \<and> body \<noteq> JNull \<and>
        OrderSchema (patched e body d) \<and> pre_save e (patched e body d)")
      case False
      with assms uid Some
      have "orders db' = orders db \<and> gifts db' = gifts db \<and> (\<forall>c k d. r \<noteq> Reply_order c k d)"
        by (auto simp: PUT_def connectToDatabase_def Order_findById_def Order_save_def patched_def
            Let_def split: if_splits)
      then show thesis using refused by blast
    next
      case True
      with assms uid Some show thesis
        by (intro saved[of uid d])
           (auto simp: PUT_def connectToDatabase_def Order_findById_def Order_save_def patched_def
              updated_def Let_def split: if_splits)
    qed
  qed
qed




text \<open>
  An update removes no order, and changes no status but that of the order addressed, from
  pending or confirmed to canceled, when the body asks for it.
\<close>

lemma PUT_status_transitions:
  assumes "PUT e caller i body db = (r, db')" and "orders db k = Some d"
  shows "\<exists>d'. orders db' k = Some d' \<and>
         (status d' = status d \<or>
          status d' = ''canceled'' \<and> k = i \<and>
          property ''status'' body = Some (JString ''canceled'') \<and>
          (status d = ''pending'' \<or> status d = ''confirmed''))"
  using assms(1)
proof (cases rule: PUT_cases)
  case refused
  with assms show ?thesis by simp
next
  case (saved uid d0)
  show ?thesis
  proof (cases "k = i")
    case False
    with assms saved(9) show ?thesis by simp
  next
    case True
    with assms saved(3) have same: "d0 = d" by simp
    from saved(5) have "status d = ''pending'' \<or> status d = ''confirmed''"
      by (simp add: updatable_def same)
    with True saved(9) same show ?thesis
      by (auto simp: updated_def patched_def handle_cancellation_def set_instructions_def
          split: option.splits)
  qed
qed

text \<open>
  With the Gift model registered, a caller is refused the order of another user.
\<close>

lemma GET_other_owner_registered:
  assumes "Gift_registered e" "uid \<noteq> []" "orders db i = Some d" "user d \<noteq> uid"
  shows "fst (GET e (Some uid) i db) = Reply_error 403 ''Access denied'' \<and>
         orders (snd (GET e (Some uid) i db)) = orders db \<and>
         gifts (snd (GET e (Some uid) i db)) = gifts db"
  using assms by (simp add: GET_def connectToDatabase_def Order_findById_def populate_def)

subsection \<open>Atomicity of a placement\<close>

text \<open>
  Claim C1 (all-or-nothing placement): when an item of a request fails its stock check,
  the call leaves every gift and every order as it was, and does not reply with an order.

  The handler saves each gift with \<^verbatim>\<open>{ session }\<close>, the login session, and that save throws
  before anything is sent: the loop ends at the first item it could serve, so a later item
  is never reached with an earlier decrement applied.
\<close>

theorem POST_failed_check_changes_nothing:
  assumes "POST e caller body db = (r, db')" and "it \<in> set (items_in body)"
    and "unavailable (gifts db (item_gift it)) it"
  shows "gifts db' = gifts db \<and> orders db' = orders db \<and> r \<noteq> Reply_order c i d"
  using POST_writes_nothing[OF assms(1)] by simp

theorem POST_failed_check_changes_nothing_witness:
  "\<lparr>item_gift = ''g2'', quantity = 1, price = 20\<rparr> \<in> set (items_in teddy_and_robot) \<and>
   unavailable (gifts shop ''g2'') \<lparr>item_gift = ''g2'', quantity = 1, price = 20\<rparr> \<and>
   fst (POST clock (Some ''u1'') teddy_and_robot shop) = Reply_thrown 500 TypeError \<and>
   gifts (snd (POST clock (Some ''u1'') teddy_and_robot shop)) = gifts shop \<and>
   orders (snd (POST clock (Some ''u1'') teddy_and_robot shop)) = orders shop \<and>
   gifts shop ''g1'' = Some teddy \<and> stockCount teddy = 5"
proof -
  let ?run = "POST clock (Some ''u1'') teddy_and_robot shop"
  let ?it = "\<lparr>item_gift = ''g2'', quantity = 1, price = 20\<rparr>"
  have run: "?run = (fst ?run, snd ?run)" by simp
  have item: "?it \<in> set (items_in teddy_and_robot)"
    by (simp add: teddy_and_robot_def basket_def)
  have out: "unavailable (gifts shop (item_gift ?it)) ?it"
    by (simp add: unavailable_def shop_def robot_def)
  have reply: "fst ?run = Reply_thrown 500 TypeError" by code_simp
  have stock: "gifts shop ''g1'' = Some teddy" "stockCount teddy = 5"
    by (simp_all add: shop_def teddy_def)
  from POST_failed_check_changes_nothing[OF run item out]
  have "gifts (snd ?run) = gifts shop" "orders (snd ?run) = orders shop" by simp_all
  with item out reply stock show ?thesis by simp
qed

subsection \<open>The stock flag\<close>



subsection \<open>The effects of a successful placement\<close>

text \<open>
  Claim C4 (effects of a successful placement): a placement of one item with price 10,
  quantity 2, delivery fee 5, tax 1 and total 26 succeeds, takes 2 from the stock and
  stores one pending order.

  The handler starts a transaction on \<^verbatim>\<open>orderSession\<close> but hands \<^verbatim>\<open>gift.save\<close> the variable
  \<^verbatim>\<open>session\<close>, the login session. The save throws, and the call replies with status 500: the
  stock of teddy bears stays 5 and no order is stored.
\<close>

theorem POST_spec_scenario_fails:
  "fst (POST clock (Some ''u1'') two_teddies shop) = Reply_thrown 500 TypeError \<and>
   gifts (snd (POST clock (Some ''u1'') two_teddies shop)) ''g1'' = Some teddy \<and>
   stockCount teddy = 5 \<and>
   orders (snd (POST clock (Some ''u1'') two_teddies shop)) ''o1'' = None"
  by code_simp

subsection \<open>The owner of a new order\<close>



subsection \<open>Cancelling an order\<close>




subsection \<open>Quantities that pass validation\<close>

text \<open>
  Claim C7 (quantities of at least 1): every request that the validation of the handler
  accepts has quantities of at least 1.

  The Zod schema of an item asks for a positive quantity, the Mongoose schema of the same
  field for \<^verbatim>\<open>min: 1\<close>. A request for half a teddy bear passes the validation of the handler
  and goes on to the stock loop, where the save of the gift throws: the reply is status
  500, not the 400 of a validation failure, and the stock stays 5.
\<close>

theorem POST_accepts_fractional_quantity:
  "items_in half_a_teddy = [\<lparr>item_gift = ''g1'', quantity = 1 / 2, price = 10\<rparr>] \<and>
   validateData (OrderValidationSchema clock) (prepare_body clock ''u1'' half_a_teddy) =
     Some (parsed 1000 (prepare_body clock ''u1'' half_a_teddy)) \<and>
   fst (POST clock (Some ''u1'') half_a_teddy shop) = Reply_thrown 500 TypeError \<and>
   gifts (snd (POST clock (Some ''u1'') half_a_teddy shop)) ''g1'' = Some teddy"
  by code_simp

subsection \<open>A placement without a caller\<close>

text \<open>
  Claim C8 as stated (an unauthenticated request never touches the database) fails: the
  first statement of the handler is \<^verbatim>\<open>await connectToDatabase()\<close>, before the session is
  looked at.
\<close>

theorem POST_unauthenticated_calls_database:
  "\<not> authenticated None \<and> calls shop = [] \<and>
   calls (snd (POST clock None two_teddies shop)) = [Connect]"
  by (simp add: authenticated_def POST_def connectToDatabase_def call_def shop_def)

text \<open>
  Claim C8 (placement without a caller), amended: a placement call without a caller
  identity replies with status 401 and "Authentication required"; it reads and writes no
  gift and no order, and the one call it makes to the database layer is the connection
  that precedes the check.
\<close>

theorem POST_unauthenticated_only_connects:
  "\<not> authenticated caller \<Longrightarrow>
   POST e caller body db =
     (Reply_error 401 ''Authentication required'', db\<lparr>calls := calls db @ [Connect]\<rparr>)"
  by (simp add: POST_no_caller call_def)

theorem POST_unauthenticated_only_connects_witness:
  "\<not> authenticated None \<and>
   POST clock None two_teddies shop =
     (Reply_error 401 ''Authentication required'', shop\<lparr>calls := calls shop @ [Connect]\<rparr>)"
  using POST_unauthenticated_only_connects[of None clock two_teddies shop]
  by (simp add: authenticated_def)

subsection \<open>Reading the order of another user\<close>

text \<open>
  Claim C9 (reading the order of another user): an authenticated caller who reads an
  existing order of another user gets status 403.

  The route imports the Order model only, and \<^verbatim>\<open>populate("items.gift")\<close> runs with the query,
  before the owner is compared. In a process where no other module has registered the Gift
  model it throws, and the reply is status 500; with the model registered it is 403.
\<close>

theorem GET_other_owner_fresh_process:
  "orders (ledger ''pending'' courier) ''o1'' = Some (placed ''pending'' courier) \<and>
   user (placed ''pending'' courier) = ''u1'' \<and>
   Gift_registered (clock\<lparr>Gift_registered := False\<rparr>) = False \<and>
   fst (GET (clock\<lparr>Gift_registered := False\<rparr>) (Some ''u2'') ''o1'' (ledger ''pending'' courier)) =
     Reply_error 500 ''Failed to fetch order'' \<and>
   fst (GET clock (Some ''u2'') ''o1'' (ledger ''pending'' courier)) =
     Reply_error 403 ''Access denied''"
  by code_simp

subsection \<open>The status transitions of an update\<close>

text \<open>
  Claim C10 (status transitions of an update): a request of the owner that asks for a
  status other than "canceled" leaves the status as it was and still succeeds.

  The status does stay: no update sets a status other than "canceled". But the pre-save
  hook hands \<^verbatim>\<open>this.deliveryPartner\<close>, a nested path that is never undefined, to a schema in
  which the partner is optional and its name and phone are not. For a pending order
  without a delivery partner the save fails and the reply is status 500; for an order
  with a complete partner the same request succeeds.
\<close>

theorem PUT_other_status_fails_to_save:
  "orders (ledger ''pending'' no_partner) ''o1'' = Some (placed ''pending'' no_partner) \<and>
   user (placed ''pending'' no_partner) = ''u1'' \<and>
   status (placed ''pending'' no_partner) = ''pending'' \<and>
   property ''status'' mark_delivered = Some (JString ''delivered'') \<and>
   fst (PUT (clock\<lparr>now := 2000\<rparr>) (Some ''u1'') ''o1'' mark_delivered (ledger ''pending'' no_partner)) =
     Reply_error 500 ''Failed to update order'' \<and>
   orders (snd (PUT (clock\<lparr>now := 2000\<rparr>) (Some ''u1'') ''o1'' mark_delivered
                 (ledger ''pending'' no_partner))) ''o1'' =
     Some (placed ''pending'' no_partner) \<and>
   OrderSchema (placed ''pending'' no_partner) \<and>
   pre_save (clock\<lparr>now := 2000\<rparr>) (placed ''pending'' no_partner) = False \<and>
   fst (PUT (clock\<lparr>now := 2000\<rparr>) (Some ''u1'') ''o1'' mark_delivered (ledger ''pending'' courier)) =
     Reply_order 200 ''o1'' (placed ''pending'' courier)"
  by code_simp

end
